theory Spec2Isabelle
  imports
    Main
    "HOL-Library.Word"
    "HOL-Library.Char_ord"
    "HOL-Library.List_Lexorder"
begin

section \<open>Detective Quest: rooms, collected clues and the clue-to-suspect table\<close>

text \<open>
  A shallow embedding of \<^verbatim>\<open>algoritmos_avancados.c\<close>.

  \<^item> A C string is modelled by its content, the bytes before the terminating NUL, as a
    \<^typ>\<open>string\<close>. A content byte is therefore never 0, and the end of the list stands for
    the terminator, which compares below every content byte.
  \<^item> The arguments of type \<^verbatim>\<open>const char *\<close> are strings, so the guards against a NULL
    argument have no counterpart here; no caller in the program passes NULL.
  \<^item> \<^verbatim>\<open>malloc\<close> is taken to succeed: the branches that report an allocation failure and
    call \<^verbatim>\<open>exit(EXIT_FAILURE)\<close> are not part of the model.
  \<^item> \<^verbatim>\<open>stdin\<close> is the finite sequence of bytes that is read until end of input;
    \<^verbatim>\<open>stdout\<close> is the list of messages printed, one constructor for each
    \<^verbatim>\<open>printf\<close> of the source.
  \<^item> \<^verbatim>\<open>unsigned long\<close> has 64 bits (LP64). The counter \<^verbatim>\<open>int cont\<close> is an unbounded
    integer: it is incremented at most once for each node of the tree of clues.
\<close>

subsection \<open>Constants and strings\<close>

definition MAX_NOME :: nat where
  "MAX_NOME = 64"

definition MAX_PISTA :: nat where
  "MAX_PISTA = 128"

definition HASH_SIZE :: nat where
  "HASH_SIZE = 101"

type_synonym ulong = "64 word"

text \<open>
  \<^verbatim>\<open>strcmp\<close>: the C standard fixes only the sign of the result, which is what the
  source tests. Bytes are compared as \<^verbatim>\<open>unsigned char\<close>.
\<close>

fun strcmp :: "string \<Rightarrow> string \<Rightarrow> int" where
  "strcmp [] [] = 0"
| "strcmp [] (b # t) = - 1"
| "strcmp (a # s) [] = 1"
| "strcmp (a # s) (b # t) =
     (if a = b then strcmp s t
      else if (of_char a :: nat) < of_char b then - 1 else 1)"

text \<open>
  \<^verbatim>\<open>strncpy(dst, src, n - 1); dst[n - 1] = '\0';\<close> leaves in \<^verbatim>\<open>dst\<close> the first
  \<^verbatim>\<open>n - 1\<close> bytes of \<^verbatim>\<open>src\<close>.
\<close>

definition strncpy_term :: "nat \<Rightarrow> string \<Rightarrow> string" where
  "strncpy_term n src = take (n - 1) src"

subsection \<open>Structures\<close>

datatype sala = Sala (nome: string) (sala_pista: string)
  (esquerda: "sala option") (direita: "sala option")

datatype pistaNode = PNull | PistaNode (esq: pistaNode) (no_pista: string) (dir: pistaNode)

record hashEntry =
  he_pista :: string
  he_suspeito :: string

text \<open>A bucket is its chain, first entry first; the table has \<open>HASH_SIZE\<close> buckets.\<close>

type_synonym tabelaHash = "nat \<Rightarrow> hashEntry list"

definition tabela_vazia :: tabelaHash where
  "tabela_vazia = (\<lambda>i. [])"

subsection \<open>Rooms\<close>

definition criarSala :: "string \<Rightarrow> string \<Rightarrow> sala" where
  "criarSala n p =
     Sala (strncpy_term MAX_NOME n)
          (if p \<noteq> [] then strncpy_term MAX_PISTA p else [])
          None None"

text \<open>The assignments \<^verbatim>\<open>s->esquerda = f\<close> and \<^verbatim>\<open>s->direita = f\<close> of \<^verbatim>\<open>main\<close>.\<close>

definition ligar_esquerda :: "sala \<Rightarrow> sala \<Rightarrow> sala" where
  "ligar_esquerda s f = Sala (nome s) (sala_pista s) (Some f) (direita s)"

definition ligar_direita :: "sala \<Rightarrow> sala \<Rightarrow> sala" where
  "ligar_direita s f = Sala (nome s) (sala_pista s) (esquerda s) (Some f)"

subsection \<open>The tree of collected clues\<close>

fun inserirPista :: "pistaNode \<Rightarrow> string \<Rightarrow> pistaNode" where
  "inserirPista raiz pista =
     (if pista = [] then raiz
      else case raiz of
        PNull \<Rightarrow> PistaNode PNull (strncpy_term MAX_PISTA pista) PNull
      | PistaNode l p r \<Rightarrow>
          (let cmp = strcmp pista p in
           if cmp < 0 then PistaNode (inserirPista l pista) p r
           else if cmp > 0 then PistaNode l p (inserirPista r pista)
           else raiz))"

text \<open>\<open>exibirPistas\<close> only reads the tree; its result is the clue texts in the order printed.\<close>

fun exibirPistas :: "pistaNode \<Rightarrow> string list" where
  "exibirPistas PNull = []"
| "exibirPistas (PistaNode l p r) = exibirPistas l @ p # exibirPistas r"

subsection \<open>The hash table\<close>

fun hash_loop :: "ulong \<Rightarrow> string \<Rightarrow> ulong" where
  "hash_loop h [] = h"
| "hash_loop h (c # s) = hash_loop ((push_bit 5 h + h) + of_nat (of_char c)) s"

definition hash_string :: "string \<Rightarrow> ulong" where
  "hash_string s = hash_loop 5381 s"

definition indice :: "string \<Rightarrow> nat" where
  "indice pista = unat (hash_string pista mod of_nat HASH_SIZE)"

text \<open>
  The first loop of \<open>inserirNaHash\<close>: the chain with the suspect of the first entry of
  key \<open>pista\<close> overwritten, or \<open>None\<close> when the loop ends without finding the key.
\<close>

fun sobrescrever :: "hashEntry list \<Rightarrow> string \<Rightarrow> string \<Rightarrow> hashEntry list option" where
  "sobrescrever [] pista suspeito = None"
| "sobrescrever (at # prox) pista suspeito =
     (if strcmp (he_pista at) pista = 0
      then Some (at\<lparr>he_suspeito := strncpy_term MAX_NOME suspeito\<rparr> # prox)
      else map_option ((#) at) (sobrescrever prox pista suspeito))"

definition inserirNaHash :: "tabelaHash \<Rightarrow> string \<Rightarrow> string \<Rightarrow> tabelaHash" where
  "inserirNaHash tabela pista suspeito =
     (let h = indice pista in
      case sobrescrever (tabela h) pista suspeito of
        Some cadeia \<Rightarrow> tabela(h := cadeia)
      | None \<Rightarrow>
          tabela(h := \<lparr>he_pista = strncpy_term MAX_PISTA pista,
                       he_suspeito = strncpy_term MAX_NOME suspeito\<rparr> # tabela h))"

fun procurar :: "hashEntry list \<Rightarrow> string \<Rightarrow> string option" where
  "procurar [] pista = None"
| "procurar (at # prox) pista =
     (if strcmp (he_pista at) pista = 0 then Some (he_suspeito at) else procurar prox pista)"

definition encontrarSuspeito :: "tabelaHash \<Rightarrow> string \<Rightarrow> string option" where
  "encontrarSuspeito tabela pista = procurar (tabela (indice pista)) pista"

text \<open>The keys held by the table, bucket by bucket, and the number of distinct ones.\<close>

definition chaves :: "tabelaHash \<Rightarrow> string list" where
  "chaves tabela = concat (map (\<lambda>i. map he_pista (tabela i)) [0..<HASH_SIZE])"

definition num_chaves :: "tabelaHash \<Rightarrow> nat" where
  "num_chaves tabela = length (remdups (chaves tabela))"

subsection \<open>Input and output\<close>

datatype saida =
    MsgTitulo | MsgInstrucoes
  | MsgEntrou string | MsgPistaEncontrada string | MsgNenhumaPistaSala
  | MsgMenu | MsgEntradaInvalida
  | MsgSemCaminhoEsquerda | MsgSemCaminhoDireita
  | MsgEncerrada | MsgOpcaoInvalida
  | MsgCabecalhoPistas | MsgNenhumaColetada | MsgItem string
  | MsgPergunta | MsgErroLeitura | MsgAcusacaoInvalida
  | MsgAcusado string | MsgContagem string int
  | MsgCulpado string | MsgInsuficiente string
  | MsgObrigado

definition nova_linha :: char where
  "nova_linha = CHR 0x0A"

definition isspace :: "char \<Rightarrow> bool" where
  "isspace c = (c = CHR '' '' \<or> (9 \<le> (of_char c :: nat) \<and> (of_char c :: nat) \<le> 13))"

text \<open>
  \<^verbatim>\<open>scanf(" %c", &opc)\<close>: skips white space and reads one byte; fails at end of input.
\<close>

definition scanf_char :: "string \<Rightarrow> (char \<times> string) option" where
  "scanf_char inp =
     (case dropWhile isspace inp of [] \<Rightarrow> None | c # resto \<Rightarrow> Some (c, resto))"

definition limparEntradaRestante :: "string \<Rightarrow> string" where
  "limparEntradaRestante inp = drop 1 (dropWhile (\<lambda>c. c \<noteq> nova_linha) inp)"

text \<open>
  \<^verbatim>\<open>fgets(buf, n, stdin)\<close>: at most \<open>n - 1\<close> bytes, up to and including the first
  new line; NULL when no byte could be read.
\<close>

fun fgets_loop :: "nat \<Rightarrow> string \<Rightarrow> string \<times> string" where
  "fgets_loop 0 inp = ([], inp)"
| "fgets_loop (Suc n) [] = ([], [])"
| "fgets_loop (Suc n) (c # inp) =
     (if c = nova_linha then ([c], inp)
      else (case fgets_loop n inp of (buf, resto) \<Rightarrow> (c # buf, resto)))"

definition fgets :: "nat \<Rightarrow> string \<Rightarrow> (string \<times> string) option" where
  "fgets n inp = (if inp = [] then None else Some (fgets_loop (n - 1) inp))"

text \<open>The C string held by a buffer ends at its first NUL byte.\<close>

definition c_str :: "string \<Rightarrow> string" where
  "c_str buf = takeWhile (\<lambda>c. c \<noteq> CHR 0x00) buf"

definition strip_newline :: "string \<Rightarrow> string" where
  "strip_newline s =
     (if length s = 0 then s
      else if s ! (length s - 1) = nova_linha then take (length s - 1) s
      else s)"

subsection \<open>Exploration\<close>

datatype estado = AtRoom sala | Ended

text \<open>Entering a room: lines 215 to 221 of the loop body.\<close>

definition entrarSala :: "sala \<Rightarrow> pistaNode \<Rightarrow> pistaNode \<times> saida list" where
  "entrarSala atual raizPistas =
     (if sala_pista atual \<noteq> []
      then (inserirPista raizPistas (sala_pista atual),
            [MsgEntrou (nome atual), MsgPistaEncontrada (sala_pista atual)])
      else (raizPistas, [MsgEntrou (nome atual), MsgNenhumaPistaSala]))"

text \<open>Acting on the option read: lines 232 to 243.\<close>

definition escolher :: "sala \<Rightarrow> char \<Rightarrow> estado \<times> saida list" where
  "escolher atual opc =
     (if opc = CHR ''e'' \<or> opc = CHR ''E'' then
        (case esquerda atual of
           Some l \<Rightarrow> (AtRoom l, [])
         | None \<Rightarrow> (AtRoom atual, [MsgSemCaminhoEsquerda]))
      else if opc = CHR ''d'' \<or> opc = CHR ''D'' then
        (case direita atual of
           Some r \<Rightarrow> (AtRoom r, [])
         | None \<Rightarrow> (AtRoom atual, [MsgSemCaminhoDireita]))
      else if opc = CHR ''s'' \<or> opc = CHR ''S'' then (Ended, [MsgEncerrada])
      else (AtRoom atual, [MsgOpcaoInvalida]))"

text \<open>
  One pass through the body of the loop of \<open>explorarSalas\<close>: the next state, the tree of
  clues, the input left and the messages printed.
\<close>

definition iteracao ::
  "sala \<Rightarrow> pistaNode \<Rightarrow> string \<Rightarrow> estado \<times> pistaNode \<times> string \<times> saida list" where
  "iteracao atual raizPistas inp =
     (case entrarSala atual raizPistas of (rp, out1) \<Rightarrow>
        (case scanf_char inp of
           None \<Rightarrow> (Ended, rp, [], out1 @ [MsgMenu, MsgEntradaInvalida])
         | Some (opc, resto) \<Rightarrow>
             (case escolher atual opc of (st, out2) \<Rightarrow>
                (st, rp, limparEntradaRestante resto, out1 @ [MsgMenu] @ out2))))"

function explorarSalas ::
  "sala option \<Rightarrow> pistaNode \<Rightarrow> string \<Rightarrow> pistaNode \<times> string \<times> saida list" where
  "explorarSalas None raizPistas inp = (raizPistas, inp, [])"
| "explorarSalas (Some atual) raizPistas inp =
     (case iteracao atual raizPistas inp of (st, rp, inp', out) \<Rightarrow>
        (case st of
           Ended \<Rightarrow> (rp, inp', out)
         | AtRoom prox \<Rightarrow>
             (case explorarSalas (Some prox) rp inp' of
                (rp', inp'', out') \<Rightarrow> (rp', inp'', out @ out'))))"
  by pat_completeness auto
termination
proof (relation "measure (\<lambda>(a, rp, inp). length inp)")
  show "wf (measure (\<lambda>(a, rp, inp). length inp))"
    by simp
next
  fix atual :: sala and raizPistas :: pistaNode and inp :: string
    and st :: estado and y :: "pistaNode \<times> string \<times> saida list"
    and rp :: pistaNode and z :: "string \<times> saida list"
    and inp' :: string and out :: "saida list" and prox :: sala
  assume "(st, y) = iteracao atual raizPistas inp" "(rp, z) = y"
    "(inp', out) = z" "st = AtRoom prox"
  then have it: "iteracao atual raizPistas inp = (AtRoom prox, rp, inp', out)"
    by simp
  then obtain opc resto where sc: "scanf_char inp = Some (opc, resto)"
    and lp: "inp' = limparEntradaRestante resto"
    by (auto simp: iteracao_def split: prod.splits option.splits)
  from sc have "dropWhile isspace inp = opc # resto"
    by (auto simp: scanf_char_def split: list.splits)
  then have "length resto < length (dropWhile isspace inp)"
    by simp
  also have "\<dots> \<le> length inp"
    by (rule length_dropWhile_le)
  finally have "length resto < length inp" .
  moreover have "length inp' \<le> length resto"
  proof -
    have "length (dropWhile (\<lambda>c. c \<noteq> nova_linha) resto) \<le> length resto"
      by (rule length_dropWhile_le)
    then show ?thesis
      unfolding lp limparEntradaRestante_def by simp
  qed
  ultimately show "((Some prox, rp, inp'), (Some atual, raizPistas, inp))
      \<in> measure (\<lambda>(a, rp, inp). length inp)"
    by simp
qed

subsection \<open>The verdict\<close>

text \<open>The counter \<^verbatim>\<open>*contador\<close> is passed in and returned.\<close>

fun contarPistasPorSuspeitoRec ::
  "pistaNode \<Rightarrow> tabelaHash \<Rightarrow> string \<Rightarrow> int \<Rightarrow> int" where
  "contarPistasPorSuspeitoRec PNull tabela suspeitoAlvo contador = contador"
| "contarPistasPorSuspeitoRec (PistaNode l p r) tabela suspeitoAlvo contador =
     (let c1 = contarPistasPorSuspeitoRec l tabela suspeitoAlvo contador;
          c2 = (case encontrarSuspeito tabela p of
                  Some s \<Rightarrow> if strcmp s suspeitoAlvo = 0 then c1 + 1 else c1
                | None \<Rightarrow> c1)
      in contarPistasPorSuspeitoRec r tabela suspeitoAlvo c2)"

text \<open>Lines 262 to 267: the heading, then the clues or the notice that there is none.\<close>

definition listarPistas :: "pistaNode \<Rightarrow> saida list" where
  "listarPistas raizPistas =
     MsgCabecalhoPistas #
     (if raizPistas = PNull then [MsgNenhumaColetada]
      else map MsgItem (exibirPistas raizPistas))"

text \<open>Lines 282 to 292: the count for the accused and the verdict.\<close>

definition julgar :: "pistaNode \<Rightarrow> tabelaHash \<Rightarrow> string \<Rightarrow> saida list" where
  "julgar raizPistas tabela acusado =
     (let cont = contarPistasPorSuspeitoRec raizPistas tabela acusado 0 in
      [MsgAcusado acusado, MsgContagem acusado cont,
       if cont \<ge> 2 then MsgCulpado acusado else MsgInsuficiente acusado])"

definition verificarSuspeitoFinal ::
  "pistaNode \<Rightarrow> tabelaHash \<Rightarrow> string \<Rightarrow> saida list \<times> string" where
  "verificarSuspeitoFinal raizPistas tabela inp =
     (let out0 = listarPistas raizPistas @ [MsgPergunta] in
      case fgets MAX_NOME inp of
        None \<Rightarrow> (out0 @ [MsgErroLeitura], inp)
      | Some (buf, resto) \<Rightarrow>
          (let acusado = strip_newline (c_str buf) in
           if length acusado = 0 then (out0 @ [MsgAcusacaoInvalida], resto)
           else (out0 @ julgar raizPistas tabela acusado, resto)))"

subsection \<open>The program\<close>

definition cozinha :: sala where
  "cozinha = criarSala ''Cozinha'' ''Copo com fragmento de esmalte''"

definition jardim :: sala where
  "jardim = criarSala ''Jardim'' ''Filtro de cigarro''"

definition porao :: sala where
  "porao = criarSala (''Por'' @ [CHR 0xC3, CHR 0xA3] @ ''o'') ''Luva encharcada''"

definition estar :: sala where
  "estar =
     ligar_direita
       (ligar_esquerda (criarSala ''Sala de Estar'' ''Perfume feminino caro'') cozinha)
       jardim"

definition biblioteca :: sala where
  "biblioteca = ligar_direita (criarSala ''Biblioteca'' ''Livro rasgado'') porao"

definition hall :: sala where
  "hall =
     ligar_direita
       (ligar_esquerda (criarSala ''Hall de Entrada'' ''Pegada suja'') estar)
       biblioteca"

definition professor_otavio :: string where
  "professor_otavio = ''Professor Ot'' @ [CHR 0xC3, CHR 0xA1] @ ''vio''"

definition tabela_inicial :: tabelaHash where
  "tabela_inicial =
     inserirNaHash
       (inserirNaHash
         (inserirNaHash
           (inserirNaHash
             (inserirNaHash
               (inserirNaHash tabela_vazia ''Pegada suja'' ''Carlos'')
               ''Perfume feminino caro'' ''Dona Beatriz'')
             ''Livro rasgado'' professor_otavio)
           ''Copo com fragmento de esmalte'' ''Dona Beatriz'')
         ''Filtro de cigarro'' ''Carlos'')
       ''Luva encharcada'' professor_otavio"

text \<open>\<open>main\<close>: the exit status and the messages printed.\<close>

definition main :: "string \<Rightarrow> int \<times> saida list" where
  "main inp =
     (case explorarSalas (Some hall) PNull inp of (raizPistas, inp1, out1) \<Rightarrow>
        (case verificarSuspeitoFinal raizPistas tabela_inicial inp1 of (out2, inp2) \<Rightarrow>
           (0, [MsgTitulo, MsgInstrucoes] @ out1 @ out2 @ [MsgObrigado])))"

text \<open>
  Scenario A: the options \<^verbatim>\<open>e\<close>, \<^verbatim>\<open>e\<close>, \<^verbatim>\<open>s\<close>, one on each line, then the
  accusation line.
\<close>

definition acusacao_A :: string where
  "acusacao_A = ''Dona Beatriz'' @ [nova_linha]"

definition entrada_A :: string where
  "entrada_A =
     [CHR ''e'', nova_linha, CHR ''e'', nova_linha, CHR ''s'', nova_linha] @ acusacao_A"

subsection \<open>Invariants used in the proofs\<close>

text \<open>
  The tree of clues is a search tree whose keys fit the field \<^verbatim>\<open>char pista[MAX_PISTA]\<close>:
  smaller keys on the left, keys that are not smaller on the right.
\<close>

fun pistas_ord :: "pistaNode \<Rightarrow> bool" where
  "pistas_ord PNull = True"
| "pistas_ord (PistaNode l p r) =
     (pistas_ord l \<and> pistas_ord r \<and> p \<noteq> [] \<and> length p \<le> 127 \<and>
      (\<forall>x \<in> set (exibirPistas l). x < p) \<and> (\<forall>x \<in> set (exibirPistas r). p \<le> x))"

text \<open>Every key of the table fits the field \<^verbatim>\<open>char pista[MAX_PISTA]\<close>.\<close>

definition chaves_curtas :: "tabelaHash \<Rightarrow> bool" where
  "chaves_curtas tab \<longleftrightarrow> (\<forall>i. \<forall>e \<in> set (tab i). length (he_pista e) < MAX_PISTA)"

section \<open>Properties\<close>

subsection \<open>Comparing and cutting strings\<close>

text \<open>
  \<open>strcmp\<close> decides the lexicographic order of the bytes, read as \<^verbatim>\<open>unsigned char\<close>:
  the order \<open><\<close> on \<^typ>\<open>string\<close>.
\<close>

lemma strcmp_less: "strcmp a b < 0 \<longleftrightarrow> a < b"
  by (induction a b rule: strcmp.induct) (auto simp: less_char_def [symmetric])

lemma strcmp_eq: "strcmp a b = 0 \<longleftrightarrow> a = b"
  by (induction a b rule: strcmp.induct) auto

lemma strcmp_greater: "strcmp a b > 0 \<longleftrightarrow> b < a"
  by (induction a b rule: strcmp.induct) (auto simp: less_char_def [symmetric])

lemma take_le: "take n s \<le> (s :: string)"
proof (induction s arbitrary: n)
  case Nil
  then show ?case by simp
next
  case (Cons c s)
  then show ?case by (cases n) simp_all
qed

lemma less_le_take: "k < s \<Longrightarrow> length k \<le> n \<Longrightarrow> k \<le> take n (s :: string)"
proof (induction k arbitrary: s n)
  case Nil
  then show ?case by simp
next
  case (Cons c k)
  then obtain d t where s: "s = d # t" by (cases s) auto
  from Cons.prems obtain m where n: "n = Suc m" by (cases n) auto
  from Cons show ?case by (auto simp: s n)
qed

subsection \<open>The tree of collected clues\<close>

declare inserirPista.simps [simp del]

lemma inserirPista_PNull:
  "inserirPista PNull s = (if s = [] then PNull else PistaNode PNull (take 127 s) PNull)"
  by (simp add: inserirPista.simps strncpy_term_def MAX_PISTA_def)

lemma inserirPista_PistaNode:
  "inserirPista (PistaNode l p r) s =
     (if s = [] then PistaNode l p r
      else if s < p then PistaNode (inserirPista l s) p r
      else if p < s then PistaNode l p (inserirPista r s)
      else PistaNode l p r)"
  by (subst inserirPista.simps) (simp add: strcmp_less strcmp_greater Let_def)

lemma set_inserirPista:
  "pistas_ord t \<Longrightarrow>
   set (exibirPistas (inserirPista t s)) =
     (if s = [] then set (exibirPistas t) else insert (take 127 s) (set (exibirPistas t)))"
  by (induction t) (auto simp: inserirPista_PNull inserirPista_PistaNode)

lemma pistas_ord_inserirPista: "pistas_ord t \<Longrightarrow> pistas_ord (inserirPista t s)"
proof (induction t)
  case PNull
  then show ?case by (simp add: inserirPista_PNull)
next
  case (PistaNode l p r)
  have lt: "take 127 s < p" if "s < p"
    using that take_le [of 127 s] by (rule_tac le_less_trans)
  have ge: "p \<le> take 127 s" if "p < s"
    using that PistaNode.prems by (simp add: less_le_take)
  from PistaNode show ?case
    by (auto simp: inserirPista_PistaNode set_inserirPista lt ge)
qed

lemma sorted_exibirPistas: "pistas_ord t \<Longrightarrow> sorted (exibirPistas t)"
proof (induction t)
  case PNull
  then show ?case by simp
next
  case (PistaNode l p r)
  have "x \<le> y" if "x \<in> set (exibirPistas l)" "y \<in> set (exibirPistas r)" for x y
  proof -
    from that PistaNode.prems have "x < p" "p \<le> y" by auto
    then show ?thesis by simp
  qed
  with PistaNode show ?case
    by (auto simp: sorted_append intro: less_imp_le)
qed

lemma pistas_ord_foldl: "pistas_ord t \<Longrightarrow> pistas_ord (foldl inserirPista t ss)"
  by (induction ss arbitrary: t) (simp_all add: pistas_ord_inserirPista)

lemma set_foldl_inserirPista:
  "pistas_ord t \<Longrightarrow>
   set (exibirPistas (foldl inserirPista t ss)) =
     set (exibirPistas t) \<union> take 127 ` {s \<in> set ss. s \<noteq> []}"
  by (induction ss arbitrary: t) (auto simp: pistas_ord_inserirPista set_inserirPista)

lemma distinct_inserirPista:
  "pistas_ord t \<Longrightarrow> distinct (exibirPistas t) \<Longrightarrow> length s \<le> 127 \<Longrightarrow>
   distinct (exibirPistas (inserirPista t s))"
  by (induction t) (auto simp: inserirPista_PNull inserirPista_PistaNode set_inserirPista)

lemma distinct_foldl_inserirPista:
  "pistas_ord t \<Longrightarrow> distinct (exibirPistas t) \<Longrightarrow> \<forall>s \<in> set ss. length s \<le> 127 \<Longrightarrow>
   distinct (exibirPistas (foldl inserirPista t ss))"
  by (induction ss arbitrary: t) (simp_all add: pistas_ord_inserirPista distinct_inserirPista)

lemma inserirPista_presente:
  "pistas_ord t \<Longrightarrow> c \<in> set (exibirPistas t) \<Longrightarrow> inserirPista t c = t"
  by (induction t) (auto simp: inserirPista_PistaNode)

lemma inserirPista_idem:
  "length p \<le> 127 \<Longrightarrow> inserirPista (inserirPista t p) p = inserirPista t p"
  by (induction t) (auto simp: inserirPista_PNull inserirPista_PistaNode)

lemma pistas_ord_coleta: "pistas_ord (foldl inserirPista PNull ss)"
  by (rule pistas_ord_foldl) simp

text \<open>
  Claim C3. For every tree of clues reached by a sequence of calls of \<open>inserirPista\<close> from
  the empty tree, the texts printed by \<open>exibirPistas\<close>, an in-order traversal, are in
  non-decreasing lexicographic order. \<open>exibirPistas\<close> reads the nodes and assigns to none of
  them: it is a function of the tree, and the tree it is given is the tree that remains.
\<close>

theorem C3_ordem: "sorted (exibirPistas (foldl inserirPista PNull ss))"
  by (rule sorted_exibirPistas) (rule pistas_ord_coleta)

text \<open>Two insertions, the second text below the first.\<close>

theorem C3_witness:
  "sorted (exibirPistas (foldl inserirPista PNull [''Pegada suja'', ''Livro rasgado'']))"
  using C3_ordem [of "[''Pegada suja'', ''Livro rasgado'']"] by simp

text \<open>
  Claim C2, as stated, fails: a clue text of 128 bytes is inserted and the enumeration does
  not contain it, only its first 127 bytes.
\<close>

theorem C2_cex:
  "replicate 128 (CHR ''a'') \<noteq> [] \<and>
   replicate 128 (CHR ''a'') \<notin>
     set (exibirPistas (foldl inserirPista PNull [replicate 128 (CHR ''a'')]))"
  by (simp add: inserirPista_PNull)

text \<open>
  Claim C2, amended. For every sequence of insertions, the enumeration contains the first
  127 bytes of every non-empty inserted clue text. When every inserted text has at most 127
  bytes, the enumeration has no repeated text and contains every non-empty inserted text.
\<close>

theorem C2_amended:
  "(\<forall>s \<in> set ss. s \<noteq> [] \<longrightarrow>
      take (MAX_PISTA - 1) s \<in> set (exibirPistas (foldl inserirPista PNull ss))) \<and>
   ((\<forall>s \<in> set ss. length s < MAX_PISTA) \<longrightarrow>
      distinct (exibirPistas (foldl inserirPista PNull ss)) \<and>
      (\<forall>s \<in> set ss. s \<noteq> [] \<longrightarrow>
         s \<in> set (exibirPistas (foldl inserirPista PNull ss))))"
proof -
  have s: "set (exibirPistas (foldl inserirPista PNull ss)) = take 127 ` {s \<in> set ss. s \<noteq> []}"
    using set_foldl_inserirPista [of PNull ss] by simp
  have d: "distinct (exibirPistas (foldl inserirPista PNull ss))"
    if "\<forall>s \<in> set ss. length s \<le> 127"
    using that distinct_foldl_inserirPista [of PNull ss] by simp
  show ?thesis
    unfolding s using d by (force simp: MAX_PISTA_def)
qed

text \<open>Four insertions: a repeated text and an empty one among them.\<close>

theorem C2_witness:
  "length ''b'' < MAX_PISTA \<and> length ''a'' < MAX_PISTA \<and> length ([] :: string) < MAX_PISTA \<and>
   distinct (exibirPistas (foldl inserirPista PNull [''b'', ''a'', [], ''b''])) \<and>
   ''a'' \<in> set (exibirPistas (foldl inserirPista PNull [''b'', ''a'', [], ''b''])) \<and>
   ''b'' \<in> set (exibirPistas (foldl inserirPista PNull [''b'', ''a'', [], ''b'']))"
  using C2_amended [of "[''b'', ''a'', [], ''b'']"] by (simp add: MAX_PISTA_def)

text \<open>
  Claim C6. In a tree of clues reached by insertions, inserting a clue text that the tree
  holds returns the same tree; so entering a room whose clue the tree holds leaves the tree
  as it is. Entering a room whose clue fits its field \<^verbatim>\<open>char pista[MAX_PISTA]\<close> any
  number of times, one after the other, leaves the tree of clues as the first entry left
  it, whatever the tree was before.
\<close>

theorem C6_noop:
  "(c \<in> set (exibirPistas (foldl inserirPista PNull ss)) \<longrightarrow>
      inserirPista (foldl inserirPista PNull ss) c = foldl inserirPista PNull ss) \<and>
   (sala_pista r \<in> set (exibirPistas (foldl inserirPista PNull ss)) \<longrightarrow>
      fst (entrarSala r (foldl inserirPista PNull ss)) = foldl inserirPista PNull ss) \<and>
   (length (sala_pista r) < MAX_PISTA \<longrightarrow>
      ((\<lambda>t. fst (entrarSala r t)) ^^ Suc n) t0 = fst (entrarSala r t0))"
proof -
  have "((\<lambda>t. fst (entrarSala r t)) ^^ Suc n) t0 = fst (entrarSala r t0)"
    if "length (sala_pista r) < MAX_PISTA"
  proof (induction n)
    case 0
    then show ?case by simp
  next
    case (Suc n)
    from that have "length (sala_pista r) \<le> 127" by (simp add: MAX_PISTA_def)
    then have "fst (entrarSala r (fst (entrarSala r t0))) = fst (entrarSala r t0)"
      by (simp add: entrarSala_def inserirPista_idem)
    with Suc show ?case by simp
  qed
  then show ?thesis
    by (simp add: entrarSala_def inserirPista_presente pistas_ord_coleta del: funpow.simps)
qed

text \<open>A clue that is present, the hall entered with its clue held, and three entries.\<close>

theorem C6_witness:
  "''a'' \<in> set (exibirPistas (foldl inserirPista PNull [''b'', ''a''])) \<and>
   inserirPista (foldl inserirPista PNull [''b'', ''a'']) ''a'' =
     foldl inserirPista PNull [''b'', ''a''] \<and>
   sala_pista hall \<in> set (exibirPistas (foldl inserirPista PNull [''Pegada suja''])) \<and>
   fst (entrarSala hall (foldl inserirPista PNull [''Pegada suja''])) =
     foldl inserirPista PNull [''Pegada suja''] \<and>
   length (sala_pista hall) < MAX_PISTA \<and>
   ((\<lambda>t. fst (entrarSala hall t)) ^^ Suc 2) PNull = fst (entrarSala hall PNull)"
proof -
  have h: "sala_pista hall = ''Pegada suja''"
    by (simp add: hall_def criarSala_def ligar_direita_def ligar_esquerda_def
        strncpy_term_def MAX_PISTA_def)
  have a: "''a'' \<in> set (exibirPistas (foldl inserirPista PNull [''b'', ''a'']))"
    by (simp add: inserirPista_PNull inserirPista_PistaNode)
  have p: "sala_pista hall \<in> set (exibirPistas (foldl inserirPista PNull [''Pegada suja'']))"
    by (simp add: h inserirPista_PNull)
  have l: "length (sala_pista hall) < MAX_PISTA"
    by (simp add: h MAX_PISTA_def)
  show ?thesis
    using C6_noop [of "''a''" "[''b'', ''a'']" hall 2 PNull]
      C6_noop [of "''a''" "[''Pegada suja'']" hall 2 PNull] a p l
    by blast
qed

subsection \<open>The hash table\<close>

lemma procurar_None_iff: "procurar ch p = None \<longleftrightarrow> p \<notin> he_pista ` set ch"
  by (induction ch) (auto simp: strcmp_eq)

lemma sobrescrever_None_iff: "sobrescrever ch p s = None \<longleftrightarrow> p \<notin> he_pista ` set ch"
  by (induction ch) (auto simp: strcmp_eq)

lemma sobrescrever_chaves:
  "sobrescrever ch p s = Some ch' \<Longrightarrow> map he_pista ch' = map he_pista ch"
  by (induction ch arbitrary: ch') (auto split: if_splits)

lemma sobrescrever_procurar:
  "sobrescrever ch p s = Some ch' \<Longrightarrow> procurar ch' p = Some (take 63 s)"
  by (induction ch arbitrary: ch')
     (auto simp: strncpy_term_def MAX_NOME_def split: if_splits)

lemma indice_less: "indice p < HASH_SIZE"
proof -
  have "hash_string p mod 101 < (101 :: ulong)"
    by (rule word_mod_less_divisor) simp
  then have "unat (hash_string p mod 101) < unat (101 :: ulong)"
    by (simp add: word_less_nat_alt)
  then show ?thesis
    by (simp add: indice_def HASH_SIZE_def)
qed

lemma encontrar_inserir:
  "length p \<le> 127 \<Longrightarrow> encontrarSuspeito (inserirNaHash tab p s) p = Some (take 63 s)"
  by (auto simp: encontrarSuspeito_def inserirNaHash_def Let_def strncpy_term_def
      MAX_PISTA_def MAX_NOME_def strcmp_eq sobrescrever_procurar split: option.splits)

lemma set_chaves: "set (chaves tab) = (\<Union>i \<in> {0..<HASH_SIZE}. he_pista ` set (tab i))"
  by (auto simp: chaves_def)

lemma set_chaves_upd:
  assumes "h < HASH_SIZE"
  shows "set (chaves (tab(h := ch))) =
    he_pista ` set ch \<union> (\<Union>i \<in> {0..<HASH_SIZE} - {h}. he_pista ` set (tab i))"
  using assms by (auto simp: set_chaves split: if_splits)

lemma set_chaves_split:
  assumes "h < HASH_SIZE"
  shows "set (chaves tab) =
    he_pista ` set (tab h) \<union> (\<Union>i \<in> {0..<HASH_SIZE} - {h}. he_pista ` set (tab i))"
  using set_chaves_upd [OF assms, of tab "tab h"] by simp

lemma inserirNaHash_None:
  "sobrescrever (tab (indice p)) p s = None \<Longrightarrow>
   inserirNaHash tab p s =
     tab(indice p := \<lparr>he_pista = take 127 p, he_suspeito = take 63 s\<rparr> # tab (indice p))"
  by (simp add: inserirNaHash_def Let_def strncpy_term_def MAX_PISTA_def MAX_NOME_def)

lemma inserirNaHash_Some:
  "sobrescrever (tab (indice p)) p s = Some ch \<Longrightarrow>
   inserirNaHash tab p s = tab(indice p := ch)"
  by (simp add: inserirNaHash_def Let_def)

lemma set_chaves_inserir:
  "set (chaves (inserirNaHash tab p s)) =
     (if p \<in> he_pista ` set (tab (indice p)) then set (chaves tab)
      else insert (take 127 p) (set (chaves tab)))"
proof (cases "sobrescrever (tab (indice p)) p s")
  case None
  then have n: "p \<notin> he_pista ` set (tab (indice p))"
    by (simp add: sobrescrever_None_iff)
  have "set (chaves (inserirNaHash tab p s)) = insert (take 127 p) (set (chaves tab))"
    unfolding inserirNaHash_None [of tab p s, OF None] set_chaves_upd [OF indice_less]
      set_chaves_split [where h = "indice p" and tab = tab, OF indice_less]
    by simp
  with n show ?thesis by simp
next
  case (Some ch')
  then have n: "p \<in> he_pista ` set (tab (indice p))"
    using sobrescrever_None_iff [of "tab (indice p)" p s] by simp
  have "he_pista ` set ch' = he_pista ` set (tab (indice p))"
    using sobrescrever_chaves [OF Some] by (metis set_map)
  then have "set (chaves (inserirNaHash tab p s)) = set (chaves tab)"
    unfolding inserirNaHash_Some [of tab p s, OF Some] set_chaves_upd [OF indice_less]
      set_chaves_split [where h = "indice p" and tab = tab, OF indice_less]
    by simp
  with n show ?thesis by simp
qed

lemma chave_apos_inserir:
  "p \<in> he_pista ` set (inserirNaHash tab p s (indice p)) \<or>
   take 127 p \<in> set (chaves (inserirNaHash tab p s))"
proof (cases "sobrescrever (tab (indice p)) p s")
  case None
  then have "p \<notin> he_pista ` set (tab (indice p))"
    by (simp add: sobrescrever_None_iff)
  then show ?thesis
    by (simp add: set_chaves_inserir)
next
  case (Some ch')
  then have "p \<in> he_pista ` set (tab (indice p))"
    using sobrescrever_None_iff [of "tab (indice p)" p s] by simp
  moreover have "he_pista ` set ch' = he_pista ` set (tab (indice p))"
    using sobrescrever_chaves [OF Some] by (metis set_map)
  ultimately show ?thesis
    by (simp add: inserirNaHash_Some [of tab p s, OF Some])
qed

lemma num_chaves_card: "num_chaves tab = card (set (chaves tab))"
  by (simp add: num_chaves_def length_remdups_card_conv)

lemma chaves_curtas_vazia: "chaves_curtas tabela_vazia"
  by (simp add: chaves_curtas_def tabela_vazia_def)

lemma chaves_curtas_inserir:
  assumes "chaves_curtas tab"
  shows "chaves_curtas (inserirNaHash tab p s)"
proof (cases "sobrescrever (tab (indice p)) p s")
  case None
  with assms show ?thesis
    by (auto simp: chaves_curtas_def inserirNaHash_None [of tab p s] MAX_PISTA_def)
next
  case (Some ch')
  have "he_pista ` set ch' = he_pista ` set (tab (indice p))"
    using sobrescrever_chaves [OF Some] by (metis set_map)
  then have "\<forall>e \<in> set ch'. length (he_pista e) < MAX_PISTA"
    using assms unfolding chaves_curtas_def by (metis imageE imageI)
  with assms show ?thesis
    by (auto simp: chaves_curtas_def inserirNaHash_Some [of tab p s, OF Some])
qed

lemma chaves_curtas_foldl:
  "chaves_curtas tab \<Longrightarrow> chaves_curtas (foldl (\<lambda>t (k, v). inserirNaHash t k v) tab kvs)"
  by (induction kvs arbitrary: tab) (auto simp: chaves_curtas_inserir)

lemma encontrar_longa:
  "chaves_curtas tab \<Longrightarrow> MAX_PISTA \<le> length p \<Longrightarrow> encontrarSuspeito tab p = None"
  by (fastforce simp: encontrarSuspeito_def procurar_None_iff chaves_curtas_def)

text \<open>
  Claim C4, as stated, fails. With a suspect name \<open>B\<close> of 64 bytes, the lookup after the
  two insertions returns the first 63 bytes of \<open>B\<close>, not \<open>B\<close>; with a clue text of 128
  bytes, the lookup finds nothing.
\<close>

theorem C4_cex:
  "encontrarSuspeito
     (inserirNaHash (inserirNaHash tabela_vazia ''x'' ''A'') ''x'' (replicate 64 (CHR ''B'')))
     ''x'' \<noteq> Some (replicate 64 (CHR ''B'')) \<and>
   encontrarSuspeito
     (inserirNaHash (inserirNaHash tabela_vazia (replicate 128 (CHR ''x'')) ''A'')
        (replicate 128 (CHR ''x'')) ''B'')
     (replicate 128 (CHR ''x'')) \<noteq> Some ''B''"
proof -
  have "chaves_curtas
     (inserirNaHash (inserirNaHash tabela_vazia (replicate 128 (CHR ''x'')) ''A'')
        (replicate 128 (CHR ''x'')) ''B'')"
    by (intro chaves_curtas_inserir chaves_curtas_vazia)
  then have "encontrarSuspeito
     (inserirNaHash (inserirNaHash tabela_vazia (replicate 128 (CHR ''x'')) ''A'')
        (replicate 128 (CHR ''x'')) ''B'')
     (replicate 128 (CHR ''x'')) = None"
    by (rule encontrar_longa) (simp add: MAX_PISTA_def)
  then show ?thesis
    by (simp add: encontrar_inserir)
qed

text \<open>
  Claim C4, amended. For every state of the table, every clue text and all suspect names
  \<open>a\<close> and \<open>b\<close>: the second of the insertions \<open>(clue, a)\<close>, \<open>(clue, b)\<close> leaves the number
  of distinct keys as it was; and when the clue text has at most 127 bytes, the lookup of
  \<open>clue\<close> then returns the first 63 bytes of \<open>b\<close>, which is \<open>b\<close> when \<open>b\<close> has at most 63
  bytes.
\<close>

theorem C4_amended:
  "num_chaves (inserirNaHash (inserirNaHash tab clue a) clue b) =
     num_chaves (inserirNaHash tab clue a) \<and>
   (length clue < MAX_PISTA \<longrightarrow>
      encontrarSuspeito (inserirNaHash (inserirNaHash tab clue a) clue b) clue =
        Some (take (MAX_NOME - 1) b) \<and>
      (length b < MAX_NOME \<longrightarrow>
         encontrarSuspeito (inserirNaHash (inserirNaHash tab clue a) clue b) clue = Some b))"
proof -
  have "set (chaves (inserirNaHash (inserirNaHash tab clue a) clue b)) =
      set (chaves (inserirNaHash tab clue a))"
    using chave_apos_inserir [of clue tab a]
    by (auto simp: set_chaves_inserir [of "inserirNaHash tab clue a"])
  then show ?thesis
    by (simp add: num_chaves_card encontrar_inserir MAX_PISTA_def MAX_NOME_def)
qed

text \<open>A short clue text and short names, on the empty table.\<close>

theorem C4_witness:
  "length ''x'' < MAX_PISTA \<and> length ''B'' < MAX_NOME \<and>
   num_chaves (inserirNaHash (inserirNaHash tabela_vazia ''x'' ''A'') ''x'' ''B'') =
     num_chaves (inserirNaHash tabela_vazia ''x'' ''A'') \<and>
   encontrarSuspeito (inserirNaHash (inserirNaHash tabela_vazia ''x'' ''A'') ''x'' ''B'') ''x'' =
     Some ''B''"
  using C4_amended [of tabela_vazia "''x''" "''A''" "''B''"]
  by (simp add: MAX_PISTA_def MAX_NOME_def)

subsection \<open>The verdict\<close>

lemma contar_filter:
  "contarPistasPorSuspeitoRec t tab alvo c =
     c + int (length (filter (\<lambda>p. encontrarSuspeito tab p = Some alvo) (exibirPistas t)))"
  by (induction t arbitrary: c) (auto simp: Let_def strcmp_eq split: option.splits)

text \<open>
  Claim C1. For every tree of clues, every table and every accused name, the count that
  the verdict stage computes is the number of clues of the tree whose lookup in the table
  returns exactly that name (the comparison is byte by byte; a clue whose lookup finds
  nothing adds nothing), and the verdict printed is the guilty one if that count is at
  least 2, otherwise that of insufficient clues. \<open>verificarSuspeitoFinal\<close> does this with
  the name it has read, when that name is not empty.
\<close>

theorem C1_veredicto:
  "contarPistasPorSuspeitoRec t tab alvo 0 =
     int (length (filter (\<lambda>p. encontrarSuspeito tab p = Some alvo) (exibirPistas t))) \<and>
   julgar t tab alvo =
     [MsgAcusado alvo,
      MsgContagem alvo
        (int (length (filter (\<lambda>p. encontrarSuspeito tab p = Some alvo) (exibirPistas t)))),
      if 2 \<le> length (filter (\<lambda>p. encontrarSuspeito tab p = Some alvo) (exibirPistas t))
      then MsgCulpado alvo else MsgInsuficiente alvo] \<and>
   (fgets MAX_NOME inp = Some (buf, resto) \<and> strip_newline (c_str buf) = alvo \<and> alvo \<noteq> [] \<longrightarrow>
      verificarSuspeitoFinal t tab inp =
        (listarPistas t @ [MsgPergunta] @ julgar t tab alvo, resto))"
  by (auto simp: contar_filter julgar_def verificarSuspeitoFinal_def Let_def)

text \<open>One clue collected, which points to the accused: insufficient.\<close>

theorem C1_witness:
  "fgets MAX_NOME (''X'' @ [nova_linha]) = Some (''X'' @ [nova_linha], []) \<and>
   strip_newline (c_str (''X'' @ [nova_linha])) = ''X'' \<and> ''X'' \<noteq> [] \<and>
   verificarSuspeitoFinal (inserirPista PNull ''a'') (inserirNaHash tabela_vazia ''a'' ''X'')
       (''X'' @ [nova_linha]) =
     (listarPistas (inserirPista PNull ''a'') @
        [MsgPergunta, MsgAcusado ''X'', MsgContagem ''X'' 1, MsgInsuficiente ''X''], [])"
proof -
  have f: "fgets MAX_NOME (''X'' @ [nova_linha]) = Some (''X'' @ [nova_linha], [])"
    by (simp add: fgets_def MAX_NOME_def nova_linha_def eval_nat_numeral)
  have s: "strip_newline (c_str (''X'' @ [nova_linha])) = ''X''"
    by (simp add: strip_newline_def c_str_def nova_linha_def)
  have e: "encontrarSuspeito (inserirNaHash tabela_vazia ''a'' ''X'') ''a'' = Some ''X''"
    using encontrar_inserir [of "''a''" tabela_vazia "''X''"] by simp
  show ?thesis
    using C1_veredicto [of "inserirPista PNull ''a''" "inserirNaHash tabela_vazia ''a'' ''X''"
        "''X''" "''X'' @ [nova_linha]" "''X'' @ [nova_linha]" "[]"] f s e
    by (simp add: inserirPista_PNull)
qed

subsection \<open>Exploration\<close>

declare explorarSalas.simps [simp del]

lemma explorar_Ended:
  "iteracao r t inp = (Ended, rp, i, out) \<Longrightarrow> explorarSalas (Some r) t inp = (rp, i, out)"
  by (subst explorarSalas.simps) simp

lemma explorar_AtRoom:
  "iteracao r t inp = (AtRoom p, rp, i, out) \<Longrightarrow>
   explorarSalas (Some r) t inp =
     (case explorarSalas (Some p) rp i of (rp', i', out') \<Rightarrow> (rp', i', out @ out'))"
  by (subst explorarSalas.simps) simp

lemma iteracao_sem_caminho:
  "scanf_char inp = Some (opc, resto) \<Longrightarrow> escolher r opc = (AtRoom r, [m]) \<Longrightarrow>
   iteracao r t inp =
     (AtRoom r, fst (entrarSala r t), limparEntradaRestante resto,
      snd (entrarSala r t) @ [MsgMenu, m])"
  by (simp add: iteracao_def split: prod.splits)

lemma entrarSala_idem:
  "length (sala_pista r) < MAX_PISTA \<Longrightarrow>
   fst (entrarSala r (fst (entrarSala r t))) = fst (entrarSala r t)"
  by (simp add: entrarSala_def inserirPista_idem MAX_PISTA_def)

text \<open>
  Claim C7. The engine is in room \<open>r\<close>; the tree of clues at the prompt is the one that
  entering \<open>r\<close> gave, \<open>fst (entrarSala r t)\<close>. If \<open>r\<close> has no room to the left and the option
  read is \<^verbatim>\<open>e\<close> or \<^verbatim>\<open>E\<close>, the pass through the loop ends in room \<open>r\<close> with that same
  tree, having reported that there is no way, and the exploration goes on from \<open>r\<close> with
  the input left: it enters \<open>r\<close> and prompts again. The same holds to the right with
  \<^verbatim>\<open>d\<close> or \<^verbatim>\<open>D\<close>. Entering \<open>r\<close> again leaves the tree of clues as it was at the first
  prompt, the clue of \<open>r\<close> fitting its field \<^verbatim>\<open>char pista[MAX_PISTA]\<close>.
\<close>

theorem C7_sem_caminho:
  "(scanf_char inp = Some (opc, resto) \<and> esquerda r = None \<and>
      (opc = CHR ''e'' \<or> opc = CHR ''E'') \<longrightarrow>
      iteracao r t inp =
        (AtRoom r, fst (entrarSala r t), limparEntradaRestante resto,
         snd (entrarSala r t) @ [MsgMenu, MsgSemCaminhoEsquerda]) \<and>
      explorarSalas (Some r) t inp =
        (case explorarSalas (Some r) (fst (entrarSala r t)) (limparEntradaRestante resto) of
           (rp, i, out) \<Rightarrow>
             (rp, i, (snd (entrarSala r t) @ [MsgMenu, MsgSemCaminhoEsquerda]) @ out))) \<and>
   (scanf_char inp = Some (opc, resto) \<and> direita r = None \<and>
      (opc = CHR ''d'' \<or> opc = CHR ''D'') \<longrightarrow>
      iteracao r t inp =
        (AtRoom r, fst (entrarSala r t), limparEntradaRestante resto,
         snd (entrarSala r t) @ [MsgMenu, MsgSemCaminhoDireita]) \<and>
      explorarSalas (Some r) t inp =
        (case explorarSalas (Some r) (fst (entrarSala r t)) (limparEntradaRestante resto) of
           (rp, i, out) \<Rightarrow>
             (rp, i, (snd (entrarSala r t) @ [MsgMenu, MsgSemCaminhoDireita]) @ out))) \<and>
   (length (sala_pista r) < MAX_PISTA \<longrightarrow>
      fst (snd (iteracao r (fst (entrarSala r t)) inp')) = fst (entrarSala r t))"
proof (intro conjI impI)
  assume a: "scanf_char inp = Some (opc, resto) \<and> esquerda r = None \<and>
      (opc = CHR ''e'' \<or> opc = CHR ''E'')"
  then have "escolher r opc = (AtRoom r, [MsgSemCaminhoEsquerda])"
    by (auto simp: escolher_def)
  with a show i: "iteracao r t inp =
        (AtRoom r, fst (entrarSala r t), limparEntradaRestante resto,
         snd (entrarSala r t) @ [MsgMenu, MsgSemCaminhoEsquerda])"
    by (simp add: iteracao_sem_caminho)
  show "explorarSalas (Some r) t inp =
        (case explorarSalas (Some r) (fst (entrarSala r t)) (limparEntradaRestante resto) of
           (rp, i, out) \<Rightarrow>
             (rp, i, (snd (entrarSala r t) @ [MsgMenu, MsgSemCaminhoEsquerda]) @ out))"
    by (rule explorar_AtRoom [OF i])
next
  assume a: "scanf_char inp = Some (opc, resto) \<and> direita r = None \<and>
      (opc = CHR ''d'' \<or> opc = CHR ''D'')"
  then have "escolher r opc = (AtRoom r, [MsgSemCaminhoDireita])"
    by (auto simp: escolher_def)
  with a show i: "iteracao r t inp =
        (AtRoom r, fst (entrarSala r t), limparEntradaRestante resto,
         snd (entrarSala r t) @ [MsgMenu, MsgSemCaminhoDireita])"
    by (simp add: iteracao_sem_caminho)
  show "explorarSalas (Some r) t inp =
        (case explorarSalas (Some r) (fst (entrarSala r t)) (limparEntradaRestante resto) of
           (rp, i, out) \<Rightarrow>
             (rp, i, (snd (entrarSala r t) @ [MsgMenu, MsgSemCaminhoDireita]) @ out))"
    by (rule explorar_AtRoom [OF i])
next
  assume l: "length (sala_pista r) < MAX_PISTA"
  have "fst (snd (iteracao r u inp')) = fst (entrarSala r u)" for u
    by (simp add: iteracao_def split: prod.splits option.splits)
  with l show "fst (snd (iteracao r (fst (entrarSala r t)) inp')) = fst (entrarSala r t)"
    by (simp add: entrarSala_idem)
qed

text \<open>The kitchen has no room on either side: \<^verbatim>\<open>e\<close>, then \<^verbatim>\<open>D\<close>.\<close>

theorem C7_witness:
  "scanf_char (''e'' @ [nova_linha]) = Some (CHR ''e'', [nova_linha]) \<and>
   scanf_char (''D'' @ [nova_linha]) = Some (CHR ''D'', [nova_linha]) \<and>
   esquerda cozinha = None \<and> direita cozinha = None \<and>
   length (sala_pista cozinha) < MAX_PISTA \<and>
   iteracao cozinha PNull (''e'' @ [nova_linha]) =
     (AtRoom cozinha, fst (entrarSala cozinha PNull), [],
      snd (entrarSala cozinha PNull) @ [MsgMenu, MsgSemCaminhoEsquerda]) \<and>
   iteracao cozinha PNull (''D'' @ [nova_linha]) =
     (AtRoom cozinha, fst (entrarSala cozinha PNull), [],
      snd (entrarSala cozinha PNull) @ [MsgMenu, MsgSemCaminhoDireita]) \<and>
   fst (snd (iteracao cozinha (fst (entrarSala cozinha PNull)) (''e'' @ [nova_linha]))) =
     fst (entrarSala cozinha PNull)"
proof -
  have s: "scanf_char (''e'' @ [nova_linha]) = Some (CHR ''e'', [nova_linha])"
    "scanf_char (''D'' @ [nova_linha]) = Some (CHR ''D'', [nova_linha])"
    by (simp_all add: scanf_char_def isspace_def nova_linha_def)
  have c: "esquerda cozinha = None" "direita cozinha = None"
    "length (sala_pista cozinha) < MAX_PISTA"
    by (simp_all add: cozinha_def criarSala_def strncpy_term_def MAX_PISTA_def)
  have l: "limparEntradaRestante [nova_linha] = []"
    by (simp add: limparEntradaRestante_def)
  show ?thesis
    using C7_sem_caminho [of "''e'' @ [nova_linha]" "CHR ''e''" "[nova_linha]" cozinha PNull
        "''e'' @ [nova_linha]"]
      C7_sem_caminho [of "''D'' @ [nova_linha]" "CHR ''D''" "[nova_linha]" cozinha PNull
        "''e'' @ [nova_linha]"]
      s c l
    by simp
qed

text \<open>
  Claim C8. When no option can be read, the input having ended, the pass through the loop
  ends the exploration at once: \<open>explorarSalas\<close> returns, as it does for the option \<^verbatim>\<open>s\<close>,
  with the tree of clues that was there at the prompt, having reported the invalid input.
  When this happens at the first prompt, \<open>main\<close> goes on to the verdict, where the
  accusation cannot be read either, prints its last message and returns 0.
\<close>

theorem C8_fim_de_entrada:
  "scanf_char inp = None \<longrightarrow>
     iteracao r t inp =
       (Ended, fst (entrarSala r t), [], snd (entrarSala r t) @ [MsgMenu, MsgEntradaInvalida]) \<and>
     explorarSalas (Some r) t inp =
       (fst (entrarSala r t), [], snd (entrarSala r t) @ [MsgMenu, MsgEntradaInvalida]) \<and>
     main inp =
       (0, [MsgTitulo, MsgInstrucoes,
            MsgEntrou ''Hall de Entrada'', MsgPistaEncontrada ''Pegada suja'', MsgMenu,
            MsgEntradaInvalida,
            MsgCabecalhoPistas, MsgItem ''Pegada suja'', MsgPergunta, MsgErroLeitura,
            MsgObrigado])"
proof
  assume s: "scanf_char inp = None"
  have i: "iteracao r t inp =
      (Ended, fst (entrarSala r t), [], snd (entrarSala r t) @ [MsgMenu, MsgEntradaInvalida])"
    for r t
    by (simp add: iteracao_def s split: prod.splits)
  have e: "explorarSalas (Some r) t inp =
      (fst (entrarSala r t), [], snd (entrarSala r t) @ [MsgMenu, MsgEntradaInvalida])"
    for r t
    by (rule explorar_Ended [OF i])
  have h: "entrarSala hall PNull =
      (PistaNode PNull ''Pegada suja'' PNull,
       [MsgEntrou ''Hall de Entrada'', MsgPistaEncontrada ''Pegada suja''])"
    by (simp add: entrarSala_def hall_def criarSala_def ligar_direita_def ligar_esquerda_def
        strncpy_term_def MAX_PISTA_def MAX_NOME_def inserirPista_PNull)
  have m: "main inp =
       (0, [MsgTitulo, MsgInstrucoes,
            MsgEntrou ''Hall de Entrada'', MsgPistaEncontrada ''Pegada suja'', MsgMenu,
            MsgEntradaInvalida,
            MsgCabecalhoPistas, MsgItem ''Pegada suja'', MsgPergunta, MsgErroLeitura,
            MsgObrigado])"
    by (simp add: main_def e h verificarSuspeitoFinal_def fgets_def listarPistas_def)
  from i e m show "iteracao r t inp =
       (Ended, fst (entrarSala r t), [], snd (entrarSala r t) @ [MsgMenu, MsgEntradaInvalida]) \<and>
     explorarSalas (Some r) t inp =
       (fst (entrarSala r t), [], snd (entrarSala r t) @ [MsgMenu, MsgEntradaInvalida]) \<and>
     main inp =
       (0, [MsgTitulo, MsgInstrucoes,
            MsgEntrou ''Hall de Entrada'', MsgPistaEncontrada ''Pegada suja'', MsgMenu,
            MsgEntradaInvalida,
            MsgCabecalhoPistas, MsgItem ''Pegada suja'', MsgPergunta, MsgErroLeitura,
            MsgObrigado])"
    by simp
qed

text \<open>The input ends after one empty line: in the kitchen, and for the whole program.\<close>

theorem C8_witness:
  "scanf_char [nova_linha] = None \<and>
   explorarSalas (Some cozinha) PNull [nova_linha] =
     (fst (entrarSala cozinha PNull), [],
      snd (entrarSala cozinha PNull) @ [MsgMenu, MsgEntradaInvalida]) \<and>
   fst (main [nova_linha]) = 0"
proof -
  have s: "scanf_char [nova_linha] = None"
    by (simp add: scanf_char_def isspace_def nova_linha_def)
  show ?thesis
    using C8_fim_de_entrada [of "[nova_linha]" cozinha PNull] s by simp
qed

subsection \<open>Scenario A\<close>

lemmas avaliar =
  hall_def estar_def cozinha_def jardim_def biblioteca_def porao_def
  criarSala_def ligar_esquerda_def ligar_direita_def strncpy_term_def
  MAX_PISTA_def MAX_NOME_def HASH_SIZE_def
  iteracao_def entrarSala_def escolher_def scanf_char_def isspace_def
  limparEntradaRestante_def nova_linha_def
  inserirPista_PNull inserirPista_PistaNode

lemma explorar_A:
  "explorarSalas (Some hall) PNull entrada_A =
    (PistaNode (PistaNode PNull ''Copo com fragmento de esmalte'' PNull) ''Pegada suja''
       (PistaNode PNull ''Perfume feminino caro'' PNull),
     acusacao_A,
     [MsgEntrou ''Hall de Entrada'', MsgPistaEncontrada ''Pegada suja'', MsgMenu,
      MsgEntrou ''Sala de Estar'', MsgPistaEncontrada ''Perfume feminino caro'', MsgMenu,
      MsgEntrou ''Cozinha'', MsgPistaEncontrada ''Copo com fragmento de esmalte'', MsgMenu,
      MsgEncerrada])"
  by (simp add: explorarSalas.simps entrada_A_def avaliar)

lemmas avaliar_hash =
  tabela_inicial_def tabela_vazia_def inserirNaHash_def encontrarSuspeito_def
  indice_def hash_string_def HASH_SIZE_def strncpy_term_def MAX_PISTA_def MAX_NOME_def
  professor_otavio_def Let_def

lemma enc1: "encontrarSuspeito tabela_inicial ''Pegada suja'' = Some ''Carlos''"
  by (simp add: avaliar_hash)

lemma enc2: "encontrarSuspeito tabela_inicial ''Perfume feminino caro'' = Some ''Dona Beatriz''"
  by (simp add: avaliar_hash)

lemma enc3: "encontrarSuspeito tabela_inicial ''Copo com fragmento de esmalte'' = Some ''Dona Beatriz''"
  by (simp add: avaliar_hash)

lemma verificar_A:
  "verificarSuspeitoFinal
     (PistaNode (PistaNode PNull ''Copo com fragmento de esmalte'' PNull) ''Pegada suja''
       (PistaNode PNull ''Perfume feminino caro'' PNull))
     tabela_inicial acusacao_A =
   ([MsgCabecalhoPistas, MsgItem ''Copo com fragmento de esmalte'',
     MsgItem ''Pegada suja'', MsgItem ''Perfume feminino caro'',
     MsgPergunta, MsgAcusado ''Dona Beatriz'', MsgContagem ''Dona Beatriz'' 2,
     MsgCulpado ''Dona Beatriz''], [])"
  by (simp add: verificarSuspeitoFinal_def julgar_def acusacao_A_def fgets_def MAX_NOME_def
      eval_nat_numeral nova_linha_def strip_newline_def c_str_def Let_def listarPistas_def
      enc1 enc2 enc3)

text \<open>
  Claim C5, as stated, fails: the three clues are collected, and the program lists them in
  another order than the one the claim gives.
\<close>

theorem C5_cex:
  "exibirPistas (fst (explorarSalas (Some hall) PNull entrada_A)) \<noteq>
     [''Pegada suja'', ''Perfume feminino caro'', ''Copo com fragmento de esmalte'']"
  by (simp add: explorar_A)

text \<open>
  Claim C5, amended. On the map and the table that \<open>main\<close> builds, the options left, left,
  quit collect the clues of the hall, the living room and the kitchen; the program lists
  them in ascending order: "Copo com fragmento de esmalte", "Pegada suja", "Perfume feminino
  caro". Accusing "Dona Beatriz" then gives the count 2 and the guilty verdict.
\<close>

theorem C5_cenario_A:
  "exibirPistas (fst (explorarSalas (Some hall) PNull entrada_A)) =
     [''Copo com fragmento de esmalte'', ''Pegada suja'', ''Perfume feminino caro''] \<and>
   main entrada_A =
     (0, [MsgTitulo, MsgInstrucoes,
          MsgEntrou ''Hall de Entrada'', MsgPistaEncontrada ''Pegada suja'', MsgMenu,
          MsgEntrou ''Sala de Estar'', MsgPistaEncontrada ''Perfume feminino caro'', MsgMenu,
          MsgEntrou ''Cozinha'', MsgPistaEncontrada ''Copo com fragmento de esmalte'', MsgMenu,
          MsgEncerrada,
          MsgCabecalhoPistas, MsgItem ''Copo com fragmento de esmalte'',
          MsgItem ''Pegada suja'', MsgItem ''Perfume feminino caro'',
          MsgPergunta, MsgAcusado ''Dona Beatriz'', MsgContagem ''Dona Beatriz'' 2,
          MsgCulpado ''Dona Beatriz'', MsgObrigado])"
  by (simp add: main_def explorar_A verificar_A)

subsection \<open>Invalid accusations\<close>

text \<open>
  Claim C9. If the line of the accusation cannot be read, or is empty once its new line is
  cut, \<open>verificarSuspeitoFinal\<close> prints the list of clues, the question and one notice (a
  reading error in the first case, an invalid accusation in the second) and returns: no
  count and no verdict is printed. \<open>main\<close> then prints its last message and its exit status
  is 0.
\<close>

theorem C9_acusacao_invalida:
  "(fgets MAX_NOME inp = None \<longrightarrow>
      verificarSuspeitoFinal t tab inp = (listarPistas t @ [MsgPergunta, MsgErroLeitura], inp)) \<and>
   (fgets MAX_NOME inp = Some (buf, resto) \<and> strip_newline (c_str buf) = [] \<longrightarrow>
      verificarSuspeitoFinal t tab inp =
        (listarPistas t @ [MsgPergunta, MsgAcusacaoInvalida], resto)) \<and>
   (explorarSalas (Some hall) PNull inp0 = (t, inp, out1) \<and>
    (fgets MAX_NOME inp = None \<or>
     (fgets MAX_NOME inp = Some (buf, resto) \<and> strip_newline (c_str buf) = [])) \<longrightarrow>
      main inp0 =
        (0, [MsgTitulo, MsgInstrucoes] @ out1 @ listarPistas t @
            [MsgPergunta,
             if fgets MAX_NOME inp = None then MsgErroLeitura else MsgAcusacaoInvalida,
             MsgObrigado]))"
  by (auto simp: verificarSuspeitoFinal_def main_def Let_def)

lemma fgets_vazio: "fgets MAX_NOME [] = None"
  by (simp add: fgets_def)

lemma fgets_linha_vazia: "fgets MAX_NOME [nova_linha] = Some ([nova_linha], [])"
  by (simp add: fgets_def MAX_NOME_def eval_nat_numeral)

lemma explorar_s:
  "explorarSalas (Some hall) PNull [CHR ''s'', nova_linha, nova_linha] =
     (PistaNode PNull ''Pegada suja'' PNull, [nova_linha],
      [MsgEntrou ''Hall de Entrada'', MsgPistaEncontrada ''Pegada suja'', MsgMenu, MsgEncerrada])"
  by (simp add: explorarSalas.simps avaliar)

text \<open>No input at all; an empty line; and the option \<^verbatim>\<open>s\<close> followed by an empty line.\<close>

theorem C9_witness:
  "fgets MAX_NOME [] = None \<and>
   verificarSuspeitoFinal PNull tabela_inicial [] =
     (listarPistas PNull @ [MsgPergunta, MsgErroLeitura], []) \<and>
   fgets MAX_NOME [nova_linha] = Some ([nova_linha], []) \<and>
   strip_newline (c_str [nova_linha]) = [] \<and>
   verificarSuspeitoFinal PNull tabela_inicial [nova_linha] =
     (listarPistas PNull @ [MsgPergunta, MsgAcusacaoInvalida], []) \<and>
   main [CHR ''s'', nova_linha, nova_linha] =
     (0, [MsgTitulo, MsgInstrucoes, MsgEntrou ''Hall de Entrada'',
          MsgPistaEncontrada ''Pegada suja'', MsgMenu, MsgEncerrada] @
         listarPistas (PistaNode PNull ''Pegada suja'' PNull) @
         [MsgPergunta, MsgAcusacaoInvalida, MsgObrigado])"
proof -
  have s: "strip_newline (c_str [nova_linha]) = []"
    by (simp add: strip_newline_def c_str_def nova_linha_def)
  show ?thesis
    using C9_acusacao_invalida [of "[]" PNull tabela_inicial "[]" "[]" "[]" "[]"]
      C9_acusacao_invalida [of "[nova_linha]" PNull tabela_inicial "[nova_linha]" "[]"
        "[CHR ''s'', nova_linha, nova_linha]"
        "[MsgEntrou ''Hall de Entrada'', MsgPistaEncontrada ''Pegada suja'', MsgMenu,
          MsgEncerrada]"]
      C9_acusacao_invalida [of "[nova_linha]" "PistaNode PNull ''Pegada suja'' PNull"
        tabela_inicial "[nova_linha]" "[]"
        "[CHR ''s'', nova_linha, nova_linha]"
        "[MsgEntrou ''Hall de Entrada'', MsgPistaEncontrada ''Pegada suja'', MsgMenu,
          MsgEncerrada]"]
      fgets_vazio fgets_linha_vazia s explorar_s
    by simp
qed

subsection \<open>Strings longer than their fields\<close>

lemma less_take_iff:
  "length k \<le> n \<Longrightarrow> n < length s \<Longrightarrow> (s < k \<longleftrightarrow> take n s < (k :: string))"
proof (induction k arbitrary: s n)
  case Nil
  then show ?case by simp
next
  case (Cons c k)
  from Cons.prems obtain d t where s: "s = d # t" by (cases s) auto
  from Cons.prems obtain m where n: "n = Suc m" by (cases n) auto
  from Cons.prems have "t < k \<longleftrightarrow> take m t < k"
    by (intro Cons.IH) (simp_all add: s n)
  then show ?case by (simp add: s n)
qed

lemma greater_take_iff:
  assumes "length k \<le> n" "n < length s"
  shows "k < s \<longleftrightarrow> k \<le> take n (s :: string)"
proof -
  from assms have "s \<noteq> k" by auto
  then have "k < s \<longleftrightarrow> \<not> s < k" by auto
  also have "\<dots> \<longleftrightarrow> \<not> take n s < k"
    using less_take_iff [OF assms] by simp
  finally show ?thesis by auto
qed

lemma inserirPista_mesmo_prefixo:
  assumes "take 127 s1 = take 127 s2" "127 < length s1" "127 < length s2"
  shows "pistas_ord t \<Longrightarrow> inserirPista t s1 = inserirPista t s2"
proof (induction t)
  case PNull
  from assms show ?case by (auto simp: inserirPista_PNull)
next
  case (PistaNode l p r)
  then have p: "length p \<le> 127" by simp
  have "s1 < p \<longleftrightarrow> s2 < p"
    using less_take_iff [OF p assms(2)] less_take_iff [OF p assms(3)] assms(1) by simp
  moreover have "p < s1 \<longleftrightarrow> p < s2"
    using greater_take_iff [OF p assms(2)] greater_take_iff [OF p assms(3)] assms(1) by simp
  moreover from assms have "s1 \<noteq> []" "s2 \<noteq> []" by auto
  ultimately show ?case
    using PistaNode by (simp add: inserirPista_PistaNode)
qed

lemma replicate_less: "m < n \<Longrightarrow> replicate m c < replicate n (c :: char)"
proof (induction m arbitrary: n)
  case 0
  then show ?case by (cases n) simp_all
next
  case (Suc m)
  then show ?case by (cases n) simp_all
qed

text \<open>
  Claim C10, as stated, fails. Take the text of 127 bytes \<^verbatim>\<open>a\<close> and the text of 128 bytes
  \<^verbatim>\<open>a\<close>: they are distinct and agree on their first 127 bytes. Were they the same clue for
  the tree of clues, inserting the second after the first would change nothing, as for a
  clue that is present; it changes what is listed. Were they the same clue for the table,
  a lookup of the one would find what was stored for the other; it finds nothing.
\<close>

theorem C10_cex:
  "exibirPistas
     (inserirPista (inserirPista PNull (replicate 127 (CHR ''a''))) (replicate 128 (CHR ''a''))) \<noteq>
   exibirPistas (inserirPista PNull (replicate 127 (CHR ''a''))) \<and>
   encontrarSuspeito (inserirNaHash tabela_vazia (replicate 127 (CHR ''a'')) ''A'')
     (replicate 128 (CHR ''a'')) \<noteq>
   encontrarSuspeito (inserirNaHash tabela_vazia (replicate 127 (CHR ''a'')) ''A'')
     (replicate 127 (CHR ''a''))"
proof -
  have l: "replicate 127 (CHR ''a'') < replicate 128 (CHR ''a'')"
    by (rule replicate_less) simp
  have "chaves_curtas (inserirNaHash tabela_vazia (replicate 127 (CHR ''a'')) ''A'')"
    by (intro chaves_curtas_inserir chaves_curtas_vazia)
  then have "encontrarSuspeito (inserirNaHash tabela_vazia (replicate 127 (CHR ''a'')) ''A'')
     (replicate 128 (CHR ''a'')) = None"
    by (rule encontrar_longa) (simp add: MAX_PISTA_def)
  moreover have "encontrarSuspeito (inserirNaHash tabela_vazia (replicate 127 (CHR ''a'')) ''A'')
     (replicate 127 (CHR ''a'')) = Some ''A''"
    by (simp add: encontrar_inserir)
  ultimately show ?thesis
    using l by (simp add: inserirPista_PNull inserirPista_PistaNode)
qed

text \<open>
  Claim C10, amended. Strings are cut to the capacity of their fields when stored: the name
  of a room and the name of a suspect to 63 bytes, a clue text to 127 bytes, in a room, in
  the tree of clues and as a key of the table. A lookup just after the insertion of a clue
  text of at most 127 bytes returns the suspect stored, and of a clue text of 128 bytes or
  more it finds nothing, in every table built by insertions. Two clue texts of 128 bytes
  or more that agree on their first 127 bytes give the same tree of clues when one or the
  other is inserted.
\<close>

theorem C10_truncamento:
  "criarSala n p = Sala (take 63 n) (take 127 p) None None \<and>
   set (exibirPistas (foldl inserirPista PNull ss)) = take 127 ` {s \<in> set ss. s \<noteq> []} \<and>
   (sobrescrever (tab (indice k)) k v = None \<longrightarrow>
      inserirNaHash tab k v =
        tab(indice k := \<lparr>he_pista = take 127 k, he_suspeito = take 63 v\<rparr> # tab (indice k))) \<and>
   (length k < MAX_PISTA \<longrightarrow>
      encontrarSuspeito (inserirNaHash tab k v) k = Some (take 63 v)) \<and>
   (MAX_PISTA \<le> length k \<longrightarrow>
      encontrarSuspeito
        (inserirNaHash (foldl (\<lambda>t (k, v). inserirNaHash t k v) tabela_vazia kvs) k v) k = None) \<and>
   (MAX_PISTA \<le> length s1 \<and> MAX_PISTA \<le> length s2 \<and> take 127 s1 = take 127 s2 \<longrightarrow>
      inserirPista (foldl inserirPista PNull ss) s1 = inserirPista (foldl inserirPista PNull ss) s2)"
proof -
  have c: "criarSala n p = Sala (take 63 n) (take 127 p) None None"
    by (simp add: criarSala_def strncpy_term_def MAX_NOME_def MAX_PISTA_def)
  have e: "set (exibirPistas (foldl inserirPista PNull ss)) = take 127 ` {s \<in> set ss. s \<noteq> []}"
    using set_foldl_inserirPista [of PNull ss] by simp
  have g: "encontrarSuspeito
        (inserirNaHash (foldl (\<lambda>t (k, v). inserirNaHash t k v) tabela_vazia kvs) k v) k = None"
    if "MAX_PISTA \<le> length k"
    using that
    by (intro encontrar_longa chaves_curtas_inserir chaves_curtas_foldl chaves_curtas_vazia)
  have i: "inserirPista (foldl inserirPista PNull ss) s1 =
      inserirPista (foldl inserirPista PNull ss) s2"
    if "MAX_PISTA \<le> length s1" "MAX_PISTA \<le> length s2" "take 127 s1 = take 127 s2"
    using that by (intro inserirPista_mesmo_prefixo pistas_ord_coleta) (simp_all add: MAX_PISTA_def)
  show ?thesis
    using c e g i
    by (simp add: inserirNaHash_None [of tab k v] encontrar_inserir MAX_PISTA_def)
qed

text \<open>A short key and a long key; two long texts with the same first 127 bytes.\<close>

theorem C10_witness:
  "sobrescrever (tabela_vazia (indice ''x'')) ''x'' ''V'' = None \<and>
   inserirNaHash tabela_vazia ''x'' ''V'' =
     tabela_vazia(indice ''x'' :=
       \<lparr>he_pista = ''x'', he_suspeito = ''V''\<rparr> # tabela_vazia (indice ''x'')) \<and>
   length ''x'' < MAX_PISTA \<and>
   encontrarSuspeito (inserirNaHash tabela_vazia ''x'' ''V'') ''x'' = Some ''V'' \<and>
   MAX_PISTA \<le> length (replicate 128 (CHR ''x'')) \<and>
   encontrarSuspeito
     (inserirNaHash (foldl (\<lambda>t (k, v). inserirNaHash t k v) tabela_vazia [(''c'', ''S'')])
        (replicate 128 (CHR ''x'')) ''V'')
     (replicate 128 (CHR ''x'')) = None \<and>
   MAX_PISTA \<le> length (replicate 128 (CHR ''a'')) \<and>
   MAX_PISTA \<le> length (replicate 127 (CHR ''a'') @ ''b'') \<and>
   take 127 (replicate 128 (CHR ''a'')) = take 127 (replicate 127 (CHR ''a'') @ ''b'') \<and>
   inserirPista (foldl inserirPista PNull [''m'']) (replicate 128 (CHR ''a'')) =
     inserirPista (foldl inserirPista PNull [''m'']) (replicate 127 (CHR ''a'') @ ''b'')"
proof -
  note curta =
    C10_truncamento [where tab = tabela_vazia and k = "''x''" and v = "''V''"
      and kvs = "[]" and ss = "[''m'']" and n = "''N''" and p = "''P''"
      and ?s1.0 = "replicate 128 (CHR ''a'')" and ?s2.0 = "replicate 127 (CHR ''a'') @ ''b''"]
  note longa =
    C10_truncamento [where tab = tabela_vazia and k = "replicate 128 (CHR ''x'')"
      and v = "''V''" and kvs = "[(''c'', ''S'')]" and ss = "[''m'']" and n = "''N''"
      and p = "''P''" and ?s1.0 = "replicate 128 (CHR ''a'')"
      and ?s2.0 = "replicate 127 (CHR ''a'') @ ''b''"]
  have h1: "sobrescrever (tabela_vazia (indice ''x'')) ''x'' ''V'' = None"
    by (simp add: tabela_vazia_def)
  have h2: "length ''x'' < MAX_PISTA"
    by (simp add: MAX_PISTA_def)
  have h3: "MAX_PISTA \<le> length (replicate 128 (CHR ''x''))"
    by (simp add: MAX_PISTA_def)
  have h4: "MAX_PISTA \<le> length (replicate 128 (CHR ''a''))"
    by (simp add: MAX_PISTA_def)
  have h5: "MAX_PISTA \<le> length (replicate 127 (CHR ''a'') @ ''b'')"
    by (simp add: MAX_PISTA_def)
  have h6: "take 127 (replicate 128 (CHR ''a'')) = take 127 (replicate 127 (CHR ''a'') @ ''b'')"
    by simp
  have c1: "inserirNaHash tabela_vazia ''x'' ''V'' =
     tabela_vazia(indice ''x'' :=
       \<lparr>he_pista = ''x'', he_suspeito = ''V''\<rparr> # tabela_vazia (indice ''x''))"
    using curta h1 by simp
  have c2: "encontrarSuspeito (inserirNaHash tabela_vazia ''x'' ''V'') ''x'' = Some ''V''"
    using curta h2 by simp
  have c3: "encontrarSuspeito
     (inserirNaHash (foldl (\<lambda>t (k, v). inserirNaHash t k v) tabela_vazia [(''c'', ''S'')])
        (replicate 128 (CHR ''x'')) ''V'')
     (replicate 128 (CHR ''x'')) = None"
    using longa h3 by blast
  have c4: "inserirPista (foldl inserirPista PNull [''m'']) (replicate 128 (CHR ''a'')) =
     inserirPista (foldl inserirPista PNull [''m'']) (replicate 127 (CHR ''a'') @ ''b'')"
    using longa h4 h5 h6 by blast
  show ?thesis
    by (intro conjI h1 h2 h3 h4 h5 h6 c1 c2 c3 c4)
qed

end
